theory Spec2Isabelle
  imports Complex_Main "HOL-Library.Sublist"
begin

section \<open>JavaScript values\<close>

text \<open>
  A JavaScript string is a sequence of UTF-16 code units.  Code units are modelled as
  natural numbers, so that the line terminators U+2028 and U+2029 and the Unicode blanks
  that the regular expressions of \<^verbatim>\<open>formatMarkdown\<close> distinguish are ordinary
  values.  \<open>str\<close> turns a literal into its code units.
\<close>

type_synonym jsstring = "nat list"

definition str :: "string \<Rightarrow> jsstring" where
  "str s = map of_char s"

text \<open>
  A JavaScript Number is an IEEE 754 binary64 value: NaN, the two infinities, the two
  zeros, and the finite non-zero doubles.  \<open>Fin q\<close> carries the exact rational value
  of a finite double (\<open>Fin 0\<close> is \<open>+0\<close>); \<open>NegZero\<close> is \<open>-0\<close>.  Every arithmetic
  operation computes the exact rational result and rounds it with \<open>round64\<close>.
\<close>

datatype jsnum = NaN | PosInf | NegInf | NegZero | Fin rat

fun bitlen :: "nat \<Rightarrow> nat" where
  "bitlen n = (if n = 0 then 0 else Suc (bitlen (n div 2)))"

declare bitlen.simps [simp del]

text \<open>\<open>flog2 q\<close> is \<open>\<lfloor>log\<^sub>2 q\<rfloor>\<close> for a positive rational \<open>q\<close>.\<close>

definition flog2 :: "rat \<Rightarrow> int" where
  "flog2 q = (if 1 \<le> q then int (bitlen (nat \<lfloor>q\<rfloor>)) - 1
              else - int (bitlen (nat (\<lceil>1 / q\<rceil> - 1))))"

definition round_half_even :: "rat \<Rightarrow> int" where
  "round_half_even r = (let f = \<lfloor>r\<rfloor>; d = r - of_int f in
     if d < 1/2 then f else if 1/2 < d then f + 1 else if even f then f else f + 1)"

definition signed_inf :: "bool \<Rightarrow> jsnum" where
  "signed_inf neg = (if neg then NegInf else PosInf)"

definition signed_zero :: "bool \<Rightarrow> jsnum" where
  "signed_zero neg = (if neg then NegZero else Fin 0)"

text \<open>
  Round to nearest, ties to even, for a non-zero rational \<open>q\<close>.  The binade \<open>e\<close> of the
  value is \<open>\<lfloor>log\<^sub>2 \<bar>q\<bar>\<rfloor>\<close>, but at least \<open>-1022\<close> (below that the value is subnormal);
  the unit in the last place is \<open>ulp e = 2 powi (e - 52)\<close>, and the result is \<open>n * ulp e\<close>
  for the integer \<open>n\<close> nearest to \<open>\<bar>q\<bar> / ulp e\<close>, which is at most \<open>2 ^ 53\<close>.  The result
  overflows to an infinity when it reaches \<open>2 ^ 1024\<close>, that is when \<open>e\<close> exceeds 1023, or
  \<open>e = 1023\<close> and \<open>n = 2 ^ 53\<close>; a result that rounds to nothing keeps the sign on a zero.
\<close>

definition binade :: "rat \<Rightarrow> int" where
  "binade a = max (flog2 a) (-1022)"

definition ulp :: "int \<Rightarrow> rat" where
  "ulp e = 2 powi (e - 52)"

definition pack :: "bool \<Rightarrow> int \<Rightarrow> int \<Rightarrow> jsnum" where
  "pack neg e n =
     (if 1023 < e \<or> (e = 1023 \<and> 2 ^ 53 \<le> n) then signed_inf neg
      else if n = 0 then signed_zero neg
      else Fin ((if neg then - 1 else 1) * of_int n * ulp e))"

definition round_in :: "rat \<Rightarrow> int \<Rightarrow> jsnum" where
  "round_in q e = pack (q < 0) e (round_half_even (\<bar>q\<bar> / ulp e))"

definition round64 :: "rat \<Rightarrow> jsnum" where
  "round64 q = round_in q (binade \<bar>q\<bar>)"

definition is_neg :: "jsnum \<Rightarrow> bool" where
  "is_neg x = (case x of NegInf \<Rightarrow> True | NegZero \<Rightarrow> True | Fin q \<Rightarrow> q < 0 | _ \<Rightarrow> False)"

definition is_inf :: "jsnum \<Rightarrow> bool" where
  "is_inf x = (x = PosInf \<or> x = NegInf)"

definition is_zero :: "jsnum \<Rightarrow> bool" where
  "is_zero x = (x = NegZero \<or> x = Fin 0)"

definition val :: "jsnum \<Rightarrow> rat" where
  "val x = (case x of Fin q \<Rightarrow> q | _ \<Rightarrow> 0)"

definition js_neg :: "jsnum \<Rightarrow> jsnum" where
  "js_neg x = (case x of NaN \<Rightarrow> NaN | PosInf \<Rightarrow> NegInf | NegInf \<Rightarrow> PosInf
     | NegZero \<Rightarrow> Fin 0 | Fin q \<Rightarrow> (if q = 0 then NegZero else Fin (- q)))"

definition js_mul :: "jsnum \<Rightarrow> jsnum \<Rightarrow> jsnum" where
  "js_mul x y =
     (if x = NaN \<or> y = NaN then NaN
      else if is_inf x \<or> is_inf y then
        (if is_zero x \<or> is_zero y then NaN else signed_inf (is_neg x \<noteq> is_neg y))
      else if val x * val y = 0 then signed_zero (is_neg x \<noteq> is_neg y)
      else round64 (val x * val y))"

definition js_add :: "jsnum \<Rightarrow> jsnum \<Rightarrow> jsnum" where
  "js_add x y =
     (if x = NaN \<or> y = NaN then NaN
      else if is_inf x then (if is_inf y \<and> y \<noteq> x then NaN else x)
      else if is_inf y then y
      else if val x + val y = 0 then signed_zero (is_neg x \<and> is_neg y)
      else round64 (val x + val y))"

definition js_sub :: "jsnum \<Rightarrow> jsnum \<Rightarrow> jsnum" where
  "js_sub x y = js_add x (js_neg y)"

definition js_div :: "jsnum \<Rightarrow> jsnum \<Rightarrow> jsnum" where
  "js_div x y =
     (if x = NaN \<or> y = NaN then NaN
      else if is_inf x then (if is_inf y then NaN else signed_inf (is_neg x \<noteq> is_neg y))
      else if is_inf y then signed_zero (is_neg x \<noteq> is_neg y)
      else if is_zero y then (if is_zero x then NaN else signed_inf (is_neg x \<noteq> is_neg y))
      else if is_zero x then signed_zero (is_neg x \<noteq> is_neg y)
      else round64 (val x / val y))"

definition js_lt :: "jsnum \<Rightarrow> jsnum \<Rightarrow> bool" where
  "js_lt x y = (x \<noteq> NaN \<and> y \<noteq> NaN \<and>
     (if x = NegInf then y \<noteq> NegInf
      else if y = PosInf then x \<noteq> PosInf
      else x \<noteq> PosInf \<and> y \<noteq> NegInf \<and> val x < val y))"

definition js_gt :: "jsnum \<Rightarrow> jsnum \<Rightarrow> bool" where
  "js_gt x y = js_lt y x"

definition js_le :: "jsnum \<Rightarrow> jsnum \<Rightarrow> bool" where
  "js_le x y = (x \<noteq> NaN \<and> y \<noteq> NaN \<and> \<not> js_lt y x)"

text \<open>
  A field of a JSON object may be absent: reading it gives \<^verbatim>\<open>undefined\<close>, here
  \<open>None\<close>.  The global \<^verbatim>\<open>isNaN\<close> and the arithmetic operators first apply
  ToNumber, which turns \<^verbatim>\<open>undefined\<close> into NaN and leaves a Number alone.
\<close>

definition to_number :: "jsnum option \<Rightarrow> jsnum" where
  "to_number v = (case v of None \<Rightarrow> NaN | Some x \<Rightarrow> x)"

definition isNaN :: "jsnum option \<Rightarrow> bool" where
  "isNaN v = (to_number v = NaN)"

section \<open>The forecast series sanitizer of \<^verbatim>\<open>renderPredictionCharts\<close>\<close>

record forecast_point =
  day :: nat
  forecast :: "jsnum option"
  lower_ci :: "jsnum option"
  upper_ci :: "jsnum option"

text \<open>
  The \<^verbatim>\<open>forecast\<close> array of a prediction is the field \<open>forecasts\<close>, since a record
  field of the point already has that name.
\<close>

record prediction =
  symbol :: jsstring
  last_price :: jsnum
  forecasts :: "forecast_point list"

text \<open>The literals \<^verbatim>\<open>0.9\<close> and \<^verbatim>\<open>1.1\<close> denote the nearest doubles.\<close>

definition lit_0_9 :: jsnum where
  "lit_0_9 = round64 (9 / 10)"

definition lit_1_1 :: jsnum where
  "lit_1_1 = round64 (11 / 10)"

text \<open>
  \<^verbatim>\<open>point => isNaN(point.forecast) ? 0 : point.forecast\<close>
\<close>

definition forecastValue :: "forecast_point \<Rightarrow> jsnum" where
  "forecastValue point = (if isNaN (forecast point) then Fin 0 else to_number (forecast point))"

text \<open>
  \<^verbatim>\<open>point => isNaN(point.lower_ci) ? (isNaN(point.forecast) ? 0 : point.forecast * 0.9) : point.lower_ci\<close>
\<close>

definition lowerValue :: "forecast_point \<Rightarrow> jsnum" where
  "lowerValue point =
     (if isNaN (lower_ci point)
      then (if isNaN (forecast point) then Fin 0 else js_mul (to_number (forecast point)) lit_0_9)
      else to_number (lower_ci point))"

text \<open>
  \<^verbatim>\<open>point => isNaN(point.upper_ci) ? (isNaN(point.forecast) ? 0 : point.forecast * 1.1) : point.upper_ci\<close>
\<close>

definition upperValue :: "forecast_point \<Rightarrow> jsnum" where
  "upperValue point =
     (if isNaN (upper_ci point)
      then (if isNaN (forecast point) then Fin 0 else js_mul (to_number (forecast point)) lit_1_1)
      else to_number (upper_ci point))"

definition forecastValues :: "prediction \<Rightarrow> jsnum list" where
  "forecastValues p = map forecastValue (forecasts p)"

definition lowerCI :: "prediction \<Rightarrow> jsnum list" where
  "lowerCI p = map lowerValue (forecasts p)"

definition upperCI :: "prediction \<Rightarrow> jsnum list" where
  "upperCI p = map upperValue (forecasts p)"


subsection \<open>The text summary\<close>

text \<open>
  \<^verbatim>\<open>forecastValues.filter(value => !isNaN(value) && value > 0)\<close>
\<close>

definition validValues :: "prediction \<Rightarrow> jsnum list" where
  "validValues p =
     filter (\<lambda>value. \<not> isNaN (Some value) \<and> js_gt value (Fin 0)) (forecastValues p)"

text \<open>
  To speak about the divisions that an evaluation performs, the two quotients of the
  summary are computed together with a log: the divisors of the divisions performed, in
  evaluation order.  A conditional expression evaluates only the branch it selects.

  \<^verbatim>\<open>validValues.length > 0 ? validValues.reduce((a, b) => a + b, 0) / validValues.length : prediction.last_price\<close>
\<close>

definition avgForecast_logged :: "prediction \<Rightarrow> jsnum \<times> jsnum list" where
  "avgForecast_logged p =
     (if length (validValues p) > 0
      then (js_div (foldl (\<lambda>a b. js_add a b) (Fin 0) (validValues p))
                   (Fin (of_nat (length (validValues p)))),
            [Fin (of_nat (length (validValues p)))])
      else (last_price p, []))"

definition avgForecast :: "prediction \<Rightarrow> jsnum" where
  "avgForecast p = fst (avgForecast_logged p)"

text \<open>
  \<^verbatim>\<open>prediction.last_price > 0 ? ((avgForecast - prediction.last_price) / prediction.last_price) * 100 : 0\<close>
\<close>

definition percentChange_logged :: "prediction \<Rightarrow> jsnum \<times> jsnum list" where
  "percentChange_logged p =
     (let (avg, divisors) = avgForecast_logged p in
      if js_gt (last_price p) (Fin 0)
      then (js_mul (js_div (js_sub avg (last_price p)) (last_price p)) (Fin 100),
            divisors @ [last_price p])
      else (Fin 0, divisors))"

definition percentChange :: "prediction \<Rightarrow> jsnum" where
  "percentChange p = fst (percentChange_logged p)"

subsection \<open>\<^verbatim>\<open>Math.min\<close>, \<^verbatim>\<open>Math.max\<close> and \<^verbatim>\<open>toFixed\<close>\<close>

text \<open>
  \<^verbatim>\<open>Math.min\<close> starts from \<open>+\<infinity>\<close>, returns NaN as soon as an argument is NaN, and
  ranks \<open>-0\<close> below \<open>+0\<close>; \<^verbatim>\<open>Math.max\<close> is its mirror image.
\<close>

definition min_step :: "jsnum \<Rightarrow> jsnum \<Rightarrow> jsnum" where
  "min_step lowest n = (if js_lt n lowest \<or> (n = NegZero \<and> lowest = Fin 0) then n else lowest)"

definition max_step :: "jsnum \<Rightarrow> jsnum \<Rightarrow> jsnum" where
  "max_step highest n = (if js_gt n highest \<or> (n = Fin 0 \<and> highest = NegZero) then n else highest)"

definition math_min :: "jsnum list \<Rightarrow> jsnum" where
  "math_min xs = (if NaN \<in> set xs then NaN else foldl min_step PosInf xs)"

definition math_max :: "jsnum list \<Rightarrow> jsnum" where
  "math_max xs = (if NaN \<in> set xs then NaN else foldl max_step NegInf xs)"

text \<open>The decimal digits of a natural number, as code units.\<close>

fun digits :: "nat \<Rightarrow> jsstring" where
  "digits n = (if n < 10 then [48 + n] else digits (n div 10) @ [48 + n mod 10])"

declare digits.simps [simp del]

text \<open>
  \<^verbatim>\<open>Number.prototype.toFixed(f)\<close> on a non-negative finite value below \<open>10 ^ 21\<close>:
  the integer \<open>n\<close> with \<open>n / 10 ^ f\<close> nearest to the value (the larger one on a tie),
  written with at least \<open>f + 1\<close> digits and a point before the last \<open>f\<close>.
\<close>

definition fixed_digits :: "nat \<Rightarrow> rat \<Rightarrow> jsstring" where
  "fixed_digits f a =
     (let n = nat \<lfloor>a * 10 ^ f + 1 / 2\<rfloor>;
          m = digits n;
          m = (if f \<noteq> 0 \<and> length m \<le> f then replicate (f + 1 - length m) 48 @ m else m)
      in if f \<noteq> 0 then take (length m - f) m @ [46] @ drop (length m - f) m else m)"

text \<open>
  From \<open>10 ^ 21\<close> on, \<^verbatim>\<open>toFixed\<close> hands the value to Number::toString, whose
  shortest-digits output the language standard leaves partly open; it is the parameter
  \<open>toString\<close>.
\<close>

definition toFixed :: "(jsnum \<Rightarrow> jsstring) \<Rightarrow> nat \<Rightarrow> jsnum \<Rightarrow> jsstring" where
  "toFixed toString f x =
     (case x of
        NaN \<Rightarrow> str ''NaN''
      | PosInf \<Rightarrow> str ''Infinity''
      | NegInf \<Rightarrow> str ''-Infinity''
      | NegZero \<Rightarrow> fixed_digits f 0
      | Fin q \<Rightarrow> (if q < 0 then str ''-'' else []) @
                 (if 10 ^ 21 \<le> \<bar>q\<bar> then toString (Fin \<bar>q\<bar>) else fixed_digits f \<bar>q\<bar>))"

subsection \<open>\<^verbatim>\<open>getRangeDisplay\<close>\<close>

definition getRangeDisplay :: "(jsnum \<Rightarrow> jsstring) \<Rightarrow> jsnum list \<Rightarrow> jsnum list \<Rightarrow> jsstring" where
  "getRangeDisplay toString lowerArray upperArray =
     (let validLower = filter (\<lambda>val. \<not> isNaN (Some val)) lowerArray;
          validUpper = filter (\<lambda>val. \<not> isNaN (Some val)) upperArray
      in if length validLower = 0 \<or> length validUpper = 0 then str ''Range not available''
         else (let minValue = math_min validLower; maxValue = math_max validUpper
               in str ''$'' @ toFixed toString 2 minValue @ str '' - $'' @
                  toFixed toString 2 maxValue))"

text \<open>
  The range line of the summary card:
  \<^verbatim>\<open>getRangeDisplay(lowerCI, upperCI)\<close> inside \<^verbatim>\<open>renderPredictionCharts\<close>.
\<close>

definition forecastRange :: "(jsnum \<Rightarrow> jsstring) \<Rightarrow> prediction \<Rightarrow> jsstring" where
  "forecastRange toString p = getRangeDisplay toString (lowerCI p) (upperCI p)"

section \<open>Regular expressions as \<^verbatim>\<open>formatMarkdown\<close> uses them\<close>

text \<open>
  The regular expressions of \<^verbatim>\<open>formatMarkdown\<close> are sequences of items: a single
  character of a class, a greedy or a lazy star over a class, the multiline anchors
  \<^verbatim>\<open>^\<close> and \<^verbatim>\<open>$\<close>, and the parentheses of a capture group.  \<^verbatim>\<open>x+\<close> is
  written \<^verbatim>\<open>xx*\<close>.
\<close>

datatype cls = Lit nat | NotLit nat | OneOf "nat list" | Dot | Space | Digit

definition line_terminator :: "nat \<Rightarrow> bool" where
  "line_terminator c = (c = 10 \<or> c = 13 \<or> c = 8232 \<or> c = 8233)"

text \<open>
  \<^verbatim>\<open>\s\<close>: tab, line feed, vertical tab, form feed, carriage return, space, no-break
  space, U+1680, U+2000 to U+200A, U+2028, U+2029, U+202F, U+205F, U+3000 and U+FEFF.
\<close>

definition white_space :: "nat \<Rightarrow> bool" where
  "white_space c = ((9 \<le> c \<and> c \<le> 13) \<or> c = 32 \<or> c = 160 \<or> c = 5760 \<or>
     (8192 \<le> c \<and> c \<le> 8202) \<or> c = 8232 \<or> c = 8233 \<or> c = 8239 \<or> c = 8287 \<or>
     c = 12288 \<or> c = 65279)"

fun in_cls :: "cls \<Rightarrow> nat \<Rightarrow> bool" where
  "in_cls (Lit a) c = (c = a)"
| "in_cls (NotLit a) c = (c \<noteq> a)"
| "in_cls (OneOf as) c = (c \<in> set as)"
| "in_cls Dot c = (\<not> line_terminator c)"
| "in_cls Space c = white_space c"
| "in_cls Digit c = (48 \<le> c \<and> c \<le> 57)"

datatype item = One cls | Star cls | Lazy cls | Bol | Eol | Open | Close

type_synonym regex = "item list"

definition lits :: "string \<Rightarrow> regex" where
  "lits s = map (\<lambda>c. One (Lit (of_char c))) s"

text \<open>
  Backtracking matching at the current position.  \<open>prev\<close> is the code unit before the
  position (\<open>None\<close> at the start of the input), \<open>s\<close> the input from the position on,
  \<open>opens\<close> the inputs at which the groups still open began, \<open>caps\<close> the text of the
  groups already closed.  A greedy star first tries to take one more character, a lazy
  star first tries to go on without; the first success is the match.  The result is the
  captures, the last code unit before the end of the match, and the input after it.
\<close>

fun rmatch :: "regex \<Rightarrow> nat option \<Rightarrow> jsstring \<Rightarrow> jsstring list \<Rightarrow> jsstring list \<Rightarrow>
    (jsstring list \<times> nat option \<times> jsstring) option" where
  "rmatch [] prev s opens caps = Some (caps, prev, s)"
| "rmatch (One k # r) prev s opens caps =
     (case s of
        [] \<Rightarrow> None
      | c # s' \<Rightarrow> if in_cls k c then rmatch r (Some c) s' opens caps else None)"
| "rmatch (Star k # r) prev s opens caps =
     (case s of
        [] \<Rightarrow> rmatch r prev s opens caps
      | c # s' \<Rightarrow>
          if in_cls k c
          then (case rmatch (Star k # r) (Some c) s' opens caps of
                  Some m \<Rightarrow> Some m
                | None \<Rightarrow> rmatch r prev s opens caps)
          else rmatch r prev s opens caps)"
| "rmatch (Lazy k # r) prev s opens caps =
     (case rmatch r prev s opens caps of
        Some m \<Rightarrow> Some m
      | None \<Rightarrow>
          (case s of
             [] \<Rightarrow> None
           | c # s' \<Rightarrow> if in_cls k c then rmatch (Lazy k # r) (Some c) s' opens caps else None))"
| "rmatch (Bol # r) prev s opens caps =
     (if (case prev of None \<Rightarrow> True | Some c \<Rightarrow> line_terminator c)
      then rmatch r prev s opens caps else None)"
| "rmatch (Eol # r) prev s opens caps =
     (if (case s of [] \<Rightarrow> True | c # s' \<Rightarrow> line_terminator c)
      then rmatch r prev s opens caps else None)"
| "rmatch (Open # r) prev s opens caps = rmatch r prev s (s # opens) caps"
| "rmatch (Close # r) prev s opens caps =
     (case opens of
        [] \<Rightarrow> None
      | s0 # os \<Rightarrow> rmatch r prev s os (caps @ [take (length s0 - length s) s0]))"

text \<open>
  A replacement string is a sequence of literal text and group references \<^verbatim>\<open>$n\<close>; a
  reference to a group that the expression does not have stays as it is written.
\<close>

datatype piece = Text jsstring | Group nat

fun expand :: "piece list \<Rightarrow> jsstring list \<Rightarrow> jsstring" where
  "expand [] caps = []"
| "expand (Text t # ps) caps = t @ expand ps caps"
| "expand (Group n # ps) caps =
     (if 1 \<le> n \<and> n \<le> length caps then caps ! (n - 1) else 36 # digits n) @ expand ps caps"

text \<open>
  \<^verbatim>\<open>String.prototype.replace\<close> with a global expression: the matches are found from
  left to right, each search starting where the previous match ended, or one code unit
  further when that match was empty; the text between the matches is kept.
\<close>

function replace_all :: "regex \<Rightarrow> piece list \<Rightarrow> nat option \<Rightarrow> jsstring \<Rightarrow> jsstring" where
  "replace_all re tpl prev s =
     (case rmatch re prev s [] [] of
        Some (caps, prev', rest) \<Rightarrow>
          if length rest < length s then expand tpl caps @ replace_all re tpl prev' rest
          else expand tpl caps @
               (case s of [] \<Rightarrow> [] | c # s' \<Rightarrow> c # replace_all re tpl (Some c) s')
      | None \<Rightarrow> (case s of [] \<Rightarrow> [] | c # s' \<Rightarrow> c # replace_all re tpl (Some c) s'))"
  by pat_completeness auto
termination
  by (relation "measure (\<lambda>(re, tpl, prev, s). length s)") auto

declare replace_all.simps [simp del]

definition replace :: "regex \<Rightarrow> piece list \<Rightarrow> jsstring \<Rightarrow> jsstring" where
  "replace re tpl s = replace_all re tpl None s"

section \<open>\<^verbatim>\<open>formatMarkdown\<close>\<close>

text \<open>
  A replacement \<^verbatim>\<open><name>$1</name>\<close>.
\<close>

definition tpl_tag :: "string \<Rightarrow> piece list" where
  "tpl_tag name = [Text (str ''<'' @ str name @ str ''>''), Group 1,
                   Text (str ''</'' @ str name @ str ''>'')]"

text \<open>
  \<^verbatim>\<open>/^# (.*$)/gm\<close>, \<^verbatim>\<open>/^## (.*$)/gm\<close>, \<^verbatim>\<open>/^### (.*$)/gm\<close>, \<^verbatim>\<open>/^#### (.*$)/gm\<close>
  and \<^verbatim>\<open>/^##### (.*$)/gm\<close>: \<open>re_line_start marker\<close> is \<^verbatim>\<open>/^marker(.*$)/gm\<close>.
\<close>

definition re_line_start :: "string \<Rightarrow> regex" where
  "re_line_start marker = Bol # lits marker @ [Open, Star Dot, Eol, Close]"

definition re_h1 :: regex where
  "re_h1 = re_line_start ''# ''"

definition re_h2 :: regex where
  "re_h2 = re_line_start ''## ''"

definition re_h3 :: regex where
  "re_h3 = re_line_start ''### ''"

definition re_h4 :: regex where
  "re_h4 = re_line_start ''#### ''"

definition re_h5 :: regex where
  "re_h5 = re_line_start ''##### ''"

text \<open>
  \<^verbatim>\<open>/\*\*(.*?)\*\*/g\<close>, \<^verbatim>\<open>/\*(.*?)\*/g\<close>, \<^verbatim>\<open>/__(.*?)__/g\<close> and \<^verbatim>\<open>/_(.*?)_/g\<close>.
\<close>

definition re_delimited :: "string \<Rightarrow> regex" where
  "re_delimited d = lits d @ [Open, Lazy Dot, Close] @ lits d"

text \<open>\<^verbatim>\<open>/^\s*\d+\.\s+(.*$)/gm\<close> and \<^verbatim>\<open>/^\s*[\-\*]\s+(.*$)/gm\<close>.\<close>

definition re_ordered_item :: regex where
  "re_ordered_item = [Bol, Star Space, One Digit, Star Digit, One (Lit 46), One Space, Star Space,
                      Open, Star Dot, Eol, Close]"

definition re_bullet_item :: regex where
  "re_bullet_item = [Bol, Star Space, One (OneOf [45, 42]), One Space, Star Space,
                     Open, Star Dot, Eol, Close]"

text \<open>
  \<^verbatim>\<open>/\[([^\]]+)\]\(([^)]+)\)/g\<close>, replaced by
  \<^verbatim>\<open><a href="$2" target="_blank">$1</a>\<close>; code unit 34 is the double quote.
\<close>

definition re_link :: regex where
  "re_link = [One (Lit 91), Open, One (NotLit 93), Star (NotLit 93), Close, One (Lit 93),
              One (Lit 40), Open, One (NotLit 41), Star (NotLit 41), Close, One (Lit 41)]"

definition tpl_link :: "piece list" where
  "tpl_link = [Text (str ''<a href='' @ [34]), Group 2,
               Text ([34] @ str '' target='' @ [34] @ str ''_blank'' @ [34] @ str ''>''),
               Group 1, Text (str ''</a>'')]"

text \<open>The inline code expression, a backquote (code unit 96) on each side of \<^verbatim>\<open>([^.]+)\<close>
  with the backquote as the excluded character.\<close>

definition re_code :: regex where
  "re_code = [One (Lit 96), Open, One (NotLit 96), Star (NotLit 96), Close, One (Lit 96)]"

text \<open>\<^verbatim>\<open>/^\> (.*$)/gm\<close>\<close>

definition re_blockquote :: regex where
  "re_blockquote = re_line_start ''> ''"

text \<open>\<^verbatim>\<open>/\n\s*\n/g\<close> and \<^verbatim>\<open>/\n/g\<close>\<close>

definition re_blank_line :: regex where
  "re_blank_line = [One (Lit 10), Star Space, One (Lit 10)]"

definition re_newline :: regex where
  "re_newline = [One (Lit 10)]"

text \<open>\<^verbatim>\<open>/<p>(\s*<li>)/g\<close> and \<^verbatim>\<open>/(<\/li>\s*)<\/p>/g\<close>\<close>

definition re_p_li :: regex where
  "re_p_li = lits ''<p>'' @ [Open, Star Space] @ lits ''<li>'' @ [Close]"

definition re_li_p :: regex where
  "re_li_p = [Open] @ lits ''</li>'' @ [Star Space, Close] @ lits ''</p>''"

text \<open>
  The chain of replacements on \<^verbatim>\<open>text\<close>, in the order of the source: the five
  header expressions, then bold and italic, list items, links, inline code, block quotes,
  paragraph breaks and line breaks.
\<close>

definition header_passes :: "(regex \<times> piece list) list" where
  "header_passes =
     [(re_h1, tpl_tag ''h1''), (re_h2, tpl_tag ''h2''), (re_h3, tpl_tag ''h3''),
      (re_h4, tpl_tag ''h4''), (re_h5, tpl_tag ''h5'')]"

definition inline_passes :: "(regex \<times> piece list) list" where
  "inline_passes =
     [(re_delimited ''**'', tpl_tag ''strong''), (re_delimited ''*'', tpl_tag ''em''),
      (re_delimited ''__'', tpl_tag ''strong''), (re_delimited ''_'', tpl_tag ''em''),
      (re_ordered_item, tpl_tag ''li''), (re_bullet_item, tpl_tag ''li''),
      (re_link, tpl_link),
      (re_code, tpl_tag ''code''),
      (re_blockquote, tpl_tag ''blockquote''),
      (re_blank_line, [Text (str ''</p><p>'')]),
      (re_newline, [Text (str ''<br>'')])]"

definition basic_passes :: "(regex \<times> piece list) list" where
  "basic_passes = header_passes @ inline_passes"

definition run_passes :: "(regex \<times> piece list) list \<Rightarrow> jsstring \<Rightarrow> jsstring" where
  "run_passes passes s = foldl (\<lambda>html (re, tpl). replace re tpl html) s passes"

text \<open>
  \<^verbatim>\<open>html = '<p>' + html + '</p>'\<close>
\<close>

definition wrapped :: "jsstring \<Rightarrow> jsstring" where
  "wrapped t = str ''<p>'' @ run_passes basic_passes t @ str ''</p>''"

text \<open>
  \<^verbatim>\<open>html.replace(/<p>(\s*<li>)/g, '<p><ul>$1').replace(/(<\/li>\s*)<\/p>/g, '$1</ul></p>')\<close>
\<close>

definition fix_list_items :: "jsstring \<Rightarrow> jsstring" where
  "fix_list_items html =
     replace re_li_p [Group 1, Text (str ''</ul></p>'')]
       (replace re_p_li [Text (str ''<p><ul>''), Group 1] html)"

text \<open>
  \<^verbatim>\<open>formatMarkdown(text)\<close>; \<open>None\<close> is \<^verbatim>\<open>null\<close> or \<^verbatim>\<open>undefined\<close>, which like the
  empty string gives the empty string.
\<close>

definition formatMarkdown :: "jsstring option \<Rightarrow> jsstring" where
  "formatMarkdown text =
     (case text of
        None \<Rightarrow> []
      | Some t \<Rightarrow>
          if t = [] then []
          else (let html = wrapped t
                in if sublist (str ''<li>'') html then fix_list_items html else html))"

section \<open>Notions used to state the claims\<close>

text \<open>
  The original forecast values that are not NaN and strictly greater than zero; an absent
  field reads as NaN.
\<close>

definition valid_originals :: "prediction \<Rightarrow> jsnum list" where
  "valid_originals p =
     filter (\<lambda>v. v \<noteq> NaN \<and> js_gt v (Fin 0))
       (map (\<lambda>point. to_number (forecast point)) (forecasts p))"

text \<open>
  The arithmetic mean of a list of finite values, in exact rational arithmetic.
\<close>

definition exact_mean :: "jsnum list \<Rightarrow> rat" where
  "exact_mean xs = sum_list (map val xs) / of_nat (length xs)"

definition non_NaN :: "jsnum list \<Rightarrow> jsnum list" where
  "non_NaN xs = filter (\<lambda>v. v \<noteq> NaN) xs"

definition least_of :: "jsnum \<Rightarrow> jsnum list \<Rightarrow> bool" where
  "least_of m xs = (m \<in> set xs \<and> list_all (\<lambda>x. \<not> js_lt x m) xs)"

definition greatest_of :: "jsnum \<Rightarrow> jsnum list \<Rightarrow> bool" where
  "greatest_of m xs = (m \<in> set xs \<and> list_all (\<lambda>x. \<not> js_gt x m) xs)"

definition is_digit :: "nat \<Rightarrow> bool" where
  "is_digit c = (48 \<le> c \<and> c \<le> 57)"

text \<open>The point of the worked example: forecast 110, both bounds NaN.\<close>

definition point_110 :: forecast_point where
  "point_110 = \<lparr>day = 0, forecast = Some (Fin 110), lower_ci = Some NaN, upper_ci = Some NaN\<rparr>"

text \<open>A point with a valid lower bound only.\<close>

definition point_lower_only :: forecast_point where
  "point_lower_only = \<lparr>day = 0, forecast = Some NaN, lower_ci = Some (Fin 5), upper_ci = Some NaN\<rparr>"

definition prediction_lower_only :: prediction where
  "prediction_lower_only = \<lparr>symbol = str ''ACME'', last_price = Fin 100, forecasts = [point_lower_only]\<rparr>"

text \<open>Predictions with one point, forecast 110, and last price 100 or 0.\<close>

definition prediction_100 :: prediction where
  "prediction_100 = \<lparr>symbol = str ''ACME'', last_price = Fin 100, forecasts = [point_110]\<rparr>"

definition prediction_0 :: prediction where
  "prediction_0 = \<lparr>symbol = str ''ACME'', last_price = Fin 0, forecasts = [point_110]\<rparr>"

text \<open>A prediction whose only point has no usable field at all.\<close>

definition prediction_all_NaN :: prediction where
  "prediction_all_NaN = \<lparr>symbol = str ''ACME'', last_price = Fin 100,
     forecasts = [\<lparr>day = 0, forecast = None, lower_ci = Some NaN, upper_ci = None\<rparr>]\<rparr>"






text \<open>
  Predictions for the average: the forecasts 0.1, 0.2 and 0.3; the forecasts 110, absent,
  -5 and 120; and forecasts of which none is valid, with last price 42.
\<close>

definition forecast_only :: "jsnum option \<Rightarrow> forecast_point" where
  "forecast_only v = \<lparr>day = 0, forecast = v, lower_ci = None, upper_ci = None\<rparr>"

definition prediction_tenths :: prediction where
  "prediction_tenths = \<lparr>symbol = str ''ACME'', last_price = Fin 100, forecasts =
     [forecast_only (Some (round64 (1 / 10))), forecast_only (Some (round64 (2 / 10))),
      forecast_only (Some (round64 (3 / 10)))]\<rparr>"

definition prediction_mixed :: prediction where
  "prediction_mixed = \<lparr>symbol = str ''ACME'', last_price = Fin 100, forecasts =
     [forecast_only (Some (Fin 110)), forecast_only None, forecast_only (Some (Fin (- 5))),
      forecast_only (Some (Fin 120))]\<rparr>"

definition prediction_none_valid :: prediction where
  "prediction_none_valid = \<lparr>symbol = str ''ACME'', last_price = Fin 42, forecasts =
     [forecast_only (Some NaN), forecast_only (Some (Fin (- 5))), forecast_only None]\<rparr>"

text \<open>A prediction whose only point has infinite bounds.\<close>

definition prediction_infinite :: prediction where
  "prediction_infinite = \<lparr>symbol = str ''ACME'', last_price = Fin 100, forecasts =
     [\<lparr>day = 0, forecast = Some (Fin 110), lower_ci = Some PosInf, upper_ci = Some PosInf\<rparr>]\<rparr>"

section \<open>Facts about the arithmetic\<close>

lemma round64_not_NaN: "round64 q \<noteq> NaN"
  by (simp add: round64_def round_in_def pack_def signed_inf_def signed_zero_def)

lemma lit_0_9_value: "lit_0_9 = Fin (8106479329266893 / 2 ^ 53)"
  unfolding lit_0_9_def by code_simp

lemma lit_1_1_value: "lit_1_1 = Fin (2476979795053773 / 2 ^ 51)"
  unfolding lit_1_1_def by code_simp

lemma js_mul_finite_NaN:
  assumes "q \<noteq> 0"
  shows "js_mul x (Fin q) = NaN \<longleftrightarrow> x = NaN"
  using assms
  by (cases x)
     (simp_all add: js_mul_def is_inf_def is_zero_def signed_inf_def signed_zero_def
        round64_not_NaN)

lemma forecastValue_not_NaN: "forecastValue point \<noteq> NaN"
  by (simp add: forecastValue_def isNaN_def)

lemma lowerValue_not_NaN: "lowerValue point \<noteq> NaN"
  by (simp add: lowerValue_def isNaN_def lit_0_9_value js_mul_finite_NaN)

lemma upperValue_not_NaN: "upperValue point \<noteq> NaN"
  by (simp add: upperValue_def isNaN_def lit_1_1_value js_mul_finite_NaN)


section \<open>Facts about the summary\<close>

lemma js_lt_trans: "js_lt x y \<Longrightarrow> js_lt y z \<Longrightarrow> js_lt x z"
  by (cases x; cases y; cases z) (auto simp: js_lt_def val_def split: if_splits)

lemma valid_filter_aux:
  "filter (\<lambda>value. \<not> isNaN (Some value) \<and> js_gt value (Fin 0)) (map forecastValue xs) =
   filter (\<lambda>v. v \<noteq> NaN \<and> js_gt v (Fin 0)) (map (\<lambda>point. to_number (forecast point)) xs)"
  by (induction xs) (auto simp: forecastValue_def isNaN_def to_number_def js_gt_def js_lt_def val_def)

lemma digits_nonempty: "digits n \<noteq> []"
  by (induction n rule: digits.induct) (subst digits.simps, simp)

lemma digits_are_digits: "c \<in> set (digits n) \<Longrightarrow> 48 \<le> c \<and> c \<le> 57"
proof (induction n rule: digits.induct)
  case (1 n)
  from "1.prems" have "c \<in> set (if n < 10 then [48 + n] else digits (n div 10) @ [48 + n mod 10])"
    by (subst (asm) digits.simps) simp
  with "1.IH" show ?case by (auto split: if_splits)
qed

lemma toFixed_5: "toFixed ts 2 (Fin 5) = str ''5.00''"
  by code_simp

lemma toFixed_7: "toFixed ts 2 (Fin 7) = str ''7.00''"
  by code_simp

lemma toFixed_0: "toFixed ts 2 (Fin 0) = str ''0.00''"
  by code_simp

lemma min_step_cases: "min_step lo n = n \<or> min_step lo n = lo"
  by (simp add: min_step_def)

lemma fold_min:
  assumes "NaN \<notin> set xs" "acc \<noteq> NaN"
  shows "(foldl min_step acc xs \<in> set xs \<or> foldl min_step acc xs = acc) \<and>
         \<not> js_lt acc (foldl min_step acc xs) \<and>
         (\<forall>x\<in>set xs. \<not> js_lt x (foldl min_step acc xs))"
  using assms
proof (induction xs arbitrary: acc)
  case Nil
  then show ?case by (cases acc) (auto simp: js_lt_def)
next
  case (Cons a xs)
  have a: "a \<noteq> NaN" and xs: "NaN \<notin> set xs" using Cons.prems by auto
  have m: "min_step acc a \<noteq> NaN" using a Cons.prems by (auto simp: min_step_def)
  note IH = Cons.IH [OF xs m]
  have 1: "\<not> js_lt acc (min_step acc a)"
    using Cons.prems a by (cases acc; cases a) (auto simp: min_step_def js_lt_def val_def split: if_splits)
  have 2: "\<not> js_lt a (min_step acc a)"
    using Cons.prems a by (cases acc; cases a) (auto simp: min_step_def js_lt_def val_def split: if_splits)
  have tr: "\<And>x y z. \<not> js_lt x y \<Longrightarrow> \<not> js_lt y z \<Longrightarrow> x \<noteq> NaN \<Longrightarrow> y \<noteq> NaN \<Longrightarrow> z \<noteq> NaN \<Longrightarrow> \<not> js_lt x z"
    subgoal for x y z
      by (cases x; cases y; cases z) (auto simp: js_lt_def val_def split: if_splits)
    done
  let ?r = "foldl min_step (min_step acc a) xs"
  have rn: "?r \<noteq> NaN" using IH xs m by auto
  show ?case
  proof (intro conjI ballI)
    show "foldl min_step acc (a # xs) \<in> set (a # xs) \<or> foldl min_step acc (a # xs) = acc"
      using IH min_step_cases [of acc a] by auto
    show "\<not> js_lt acc (foldl min_step acc (a # xs))"
      using tr [OF 1, of ?r] IH m rn Cons.prems by auto
    fix x assume "x \<in> set (a # xs)"
    then show "\<not> js_lt x (foldl min_step acc (a # xs))"
      using tr [OF 2, of ?r] IH m rn a by auto
  qed
qed

lemma js_gt_trans_neg:
  "\<not> js_gt x y \<Longrightarrow> \<not> js_gt y z \<Longrightarrow> x \<noteq> NaN \<Longrightarrow> y \<noteq> NaN \<Longrightarrow> z \<noteq> NaN \<Longrightarrow> \<not> js_gt x z"
  by (cases x; cases y; cases z) (auto simp: js_gt_def js_lt_def val_def split: if_splits)

lemma max_step_cases: "max_step hi n = n \<or> max_step hi n = hi"
  by (simp add: max_step_def)

lemma fold_max:
  assumes "NaN \<notin> set xs" "acc \<noteq> NaN"
  shows "(foldl max_step acc xs \<in> set xs \<or> foldl max_step acc xs = acc) \<and>
         \<not> js_gt acc (foldl max_step acc xs) \<and>
         (\<forall>x\<in>set xs. \<not> js_gt x (foldl max_step acc xs))"
  using assms
proof (induction xs arbitrary: acc)
  case Nil
  then show ?case by (cases acc) (auto simp: js_gt_def js_lt_def)
next
  case (Cons a xs)
  have a: "a \<noteq> NaN" and xs: "NaN \<notin> set xs" using Cons.prems by auto
  have m: "max_step acc a \<noteq> NaN" using a Cons.prems by (auto simp: max_step_def)
  note IH = Cons.IH [OF xs m]
  have 1: "\<not> js_gt acc (max_step acc a)"
    using Cons.prems a
    by (cases acc; cases a) (auto simp: max_step_def js_gt_def js_lt_def val_def split: if_splits)
  have 2: "\<not> js_gt a (max_step acc a)"
    using Cons.prems a
    by (cases acc; cases a) (auto simp: max_step_def js_gt_def js_lt_def val_def split: if_splits)
  let ?r = "foldl max_step (max_step acc a) xs"
  have rn: "?r \<noteq> NaN" using IH xs m by auto
  show ?case
  proof (intro conjI ballI)
    show "foldl max_step acc (a # xs) \<in> set (a # xs) \<or> foldl max_step acc (a # xs) = acc"
      using IH max_step_cases [of acc a] by auto
    show "\<not> js_gt acc (foldl max_step acc (a # xs))"
      using js_gt_trans_neg [OF 1, of ?r] IH m rn Cons.prems by auto
    fix x assume "x \<in> set (a # xs)"
    then show "\<not> js_gt x (foldl max_step acc (a # xs))"
      using js_gt_trans_neg [OF 2, of ?r] IH m rn a by auto
  qed
qed

lemma math_min_least:
  assumes "xs \<noteq> []" "NaN \<notin> set xs"
  shows "math_min xs \<in> set xs \<and> (\<forall>x\<in>set xs. \<not> js_lt x (math_min xs))"
proof -
  note f = fold_min [OF assms(2), of PosInf, simplified]
  have "foldl min_step PosInf xs \<in> set xs"
  proof (cases "foldl min_step PosInf xs \<in> set xs")
    case False
    with f have e: "foldl min_step PosInf xs = PosInf" by simp
    obtain x where x: "x \<in> set xs" using assms(1) by (cases xs) auto
    with f e have "\<not> js_lt x PosInf" by auto
    moreover have "x \<noteq> NaN" using x assms(2) by auto
    ultimately have "x = PosInf" by (cases x) (auto simp: js_lt_def)
    with x e show ?thesis by simp
  qed simp
  with f assms(2) show ?thesis by (simp add: math_min_def)
qed

lemma math_max_greatest:
  assumes "xs \<noteq> []" "NaN \<notin> set xs"
  shows "math_max xs \<in> set xs \<and> (\<forall>x\<in>set xs. \<not> js_gt x (math_max xs))"
proof -
  note f = fold_max [OF assms(2), of NegInf, simplified]
  have "foldl max_step NegInf xs \<in> set xs"
  proof (cases "foldl max_step NegInf xs \<in> set xs")
    case False
    with f have e: "foldl max_step NegInf xs = NegInf" by simp
    obtain x where x: "x \<in> set xs" using assms(1) by (cases xs) auto
    with f e have "\<not> js_gt x NegInf" by auto
    moreover have "x \<noteq> NaN" using x assms(2) by auto
    ultimately have "x = NegInf" by (cases x) (auto simp: js_gt_def js_lt_def)
    with x e show ?thesis by simp
  qed simp
  with f assms(2) show ?thesis by (simp add: math_max_def)
qed

lemma fixed_digits_two:
  assumes "0 \<le> a"
  shows "\<exists>ip d1 d2. fixed_digits 2 a = ip @ [46, d1, d2] \<and> ip \<noteq> [] \<and>
           (\<forall>c\<in>set (ip @ [d1, d2]). 48 \<le> c \<and> c \<le> 57)"
proof -
  define n where "n = nat \<lfloor>a * 10 ^ 2 + 1 / 2\<rfloor>"
  define m where "m = (if length (digits n) \<le> 2 then replicate (3 - length (digits n)) 48 @ digits n else digits n)"
  have fd: "fixed_digits 2 a = take (length m - 2) m @ [46] @ drop (length m - 2) m"
    by (simp add: fixed_digits_def Let_def n_def m_def)
  have len: "3 \<le> length m" by (auto simp: m_def)
  have dig: "\<forall>c\<in>set m. 48 \<le> c \<and> c \<le> 57"
    using digits_are_digits [of _ n] by (auto simp: m_def)
  have "length (drop (length m - 2) m) = 2" using len by simp
  then obtain d1 d2 where d: "drop (length m - 2) m = [d1, d2]"
    by (metis (no_types, opaque_lifting) One_nat_def Suc_1 length_0_conv length_Suc_conv)
  have tk: "take (length m - 2) m \<noteq> []" using len by auto
  have "set (take (length m - 2) m @ [d1, d2]) = set m"
    by (metis append_take_drop_id d)
  with dig fd d tk show ?thesis by (metis append_Cons append_Nil)
qed

lemma mul_110_lit_0_9: "js_mul (Fin 110) lit_0_9 = Fin 99"
  unfolding lit_0_9_def by code_simp

lemma mul_110_lit_1_1: "js_mul (Fin 110) lit_1_1 = Fin (121 + 1 / 2 ^ 46)"
  unfolding lit_1_1_def by code_simp

lemma str_head: "str (c # cs) = of_char c # str cs"
  by (simp add: str_def)

lemma non_NaN_filter: "filter (\<lambda>val. \<not> isNaN (Some val)) xs = non_NaN xs"
  by (simp add: non_NaN_def isNaN_def to_number_def)

lemma NaN_notin_non_NaN: "NaN \<notin> set (non_NaN xs)"
  by (simp add: non_NaN_def)

lemma non_NaN_id: "NaN \<notin> set xs \<Longrightarrow> non_NaN xs = xs"
  by (induction xs) (auto simp: non_NaN_def)

lemma getRangeDisplay_unfold:
  "getRangeDisplay ts lo up =
     (if non_NaN lo = [] \<or> non_NaN up = [] then str ''Range not available''
      else str ''$'' @ toFixed ts 2 (math_min (non_NaN lo)) @ str '' - $'' @
           toFixed ts 2 (math_max (non_NaN up)))"
  by (simp add: getRangeDisplay_def non_NaN_filter Let_def)

lemma range_not_sentinel: "str ''$'' @ x \<noteq> str ''Range not available''"
  by (simp add: str_head)

lemma toFixed_two_decimals:
  assumes "\<bar>q\<bar> < 10 ^ 21"
  shows "\<exists>ip d1 d2. toFixed ts 2 (Fin q) = (if q < 0 then str ''-'' else []) @ ip @ [46, d1, d2] \<and>
           ip \<noteq> [] \<and> list_all is_digit (ip @ [d1, d2])"
proof -
  obtain ip d1 d2 where "fixed_digits 2 \<bar>q\<bar> = ip @ [46, d1, d2]" "ip \<noteq> []"
    "\<forall>c\<in>set (ip @ [d1, d2]). 48 \<le> c \<and> c \<le> 57"
    using fixed_digits_two [of "\<bar>q\<bar>"] by auto
  with assms show ?thesis
    by (auto simp: toFixed_def is_digit_def list_all_iff)
qed

lemma min_5: "math_min (non_NaN [Fin 5, NaN]) = Fin 5"
  by (simp add: math_min_def non_NaN_def min_step_def js_lt_def)

lemma max_7: "math_max (non_NaN [NaN, Fin 7]) = Fin 7"
  by (simp add: math_max_def non_NaN_def max_step_def js_gt_def js_lt_def)

lemma percent_formula_110_100:
  "js_mul (js_div (js_sub (js_div (js_add (Fin 0) (Fin 110)) (Fin 1)) (Fin 100)) (Fin 100)) (Fin 100)
     = Fin 10"
  by code_simp

lemma valid_100: "validValues prediction_100 = [Fin 110]"
  by (simp add: validValues_def forecastValues_def prediction_100_def point_110_def
      forecastValue_def isNaN_def to_number_def js_gt_def js_lt_def val_def)

lemma valid_0: "validValues prediction_0 = [Fin 110]"
  by (simp add: validValues_def forecastValues_def prediction_0_def point_110_def
      forecastValue_def isNaN_def to_number_def js_gt_def js_lt_def val_def)

lemma avg_100: "avgForecast prediction_100 = js_div (js_add (Fin 0) (Fin 110)) (Fin 1)"
  by (simp add: avgForecast_def avgForecast_logged_def valid_100)

lemma all_NaN_arrays:
  "lowerCI prediction_all_NaN = [Fin 0]" "upperCI prediction_all_NaN = [Fin 0]"
  by (simp_all add: lowerCI_def upperCI_def prediction_all_NaN_def lowerValue_def upperValue_def
      isNaN_def to_number_def)

lemma min_max_single: "x \<noteq> NaN \<Longrightarrow> math_min [x] = x" "x \<noteq> NaN \<Longrightarrow> math_max [x] = x"
  by (cases x; simp add: math_min_def math_max_def min_step_def max_step_def js_gt_def js_lt_def)+

lemma lower_only_arrays:
  "lowerCI prediction_lower_only = [Fin 5]" "upperCI prediction_lower_only = [Fin 0]"
  by (simp_all add: lowerCI_def upperCI_def prediction_lower_only_def point_lower_only_def
      lowerValue_def upperValue_def isNaN_def to_number_def)

section \<open>Rounding is exact on whole numbers below \<open>2 ^ 53\<close>\<close>

lemma bitlen_pos: "0 < n \<Longrightarrow> 0 < bitlen n"
  by (subst bitlen.simps) simp

lemma bitlen_bounds: "0 < n \<Longrightarrow> 2 ^ (bitlen n - 1) \<le> n \<and> n < 2 ^ bitlen n"
proof (induction n rule: bitlen.induct)
  case (1 n)
  have b: "bitlen n = Suc (bitlen (n div 2))"
    using "1.prems" by (subst bitlen.simps) simp
  show ?case
  proof (cases "n div 2 = 0")
    case True
    then have "n = 1" using "1.prems" by auto
    moreover have "bitlen (0::nat) = 0" by (subst bitlen.simps) simp
    ultimately show ?thesis using b by simp
  next
    case False
    then have h: "0 < n div 2" by simp
    from "1.IH" [OF _ h] "1.prems"
    have IH: "2 ^ (bitlen (n div 2) - 1) \<le> n div 2" "n div 2 < 2 ^ bitlen (n div 2)" by auto
    obtain k where k: "bitlen (n div 2) = Suc k"
      using bitlen_pos [OF h] by (cases "bitlen (n div 2)") auto
    from IH k have "2 * 2 ^ k \<le> 2 * (n div 2)" by simp
    then have lo: "2 ^ Suc k \<le> n" by simp
    from IH k have "n div 2 + 1 \<le> 2 ^ Suc k" by simp
    then have "2 * (n div 2) + 2 \<le> 2 * 2 ^ Suc k" by simp
    then have hi: "n < 2 ^ Suc (Suc k)" by simp
    from lo hi show ?thesis by (simp add: b k)
  qed
qed

lemma round_half_even_int: "round_half_even (of_int k) = k"
  by (simp add: round_half_even_def)

lemma round64_nat:
  assumes "0 < n" "n < 2 ^ 53"
  shows "round64 (of_nat n) = Fin (of_nat n)"
proof -
  define b where "b = bitlen n"
  have bb: "2 ^ (b - 1) \<le> n" "n < 2 ^ b" "0 < b"
    using bitlen_bounds [OF assms(1)] bitlen_pos [OF assms(1)] by (simp_all add: b_def)
  have "b - 1 < 53"
  proof (rule ccontr)
    assume "\<not> b - 1 < 53"
    then have "(2::nat) ^ 53 \<le> 2 ^ (b - 1)" by (intro power_increasing) simp_all
    with bb(1) assms(2) show False by linarith
  qed
  then have b53: "b \<le> 53" by simp
  define d where "d = 53 - b"
  have fl: "flog2 (of_nat n) = int b - 1"
    using assms(1) by (simp add: flog2_def b_def)
  have bin: "binade \<bar>of_nat n\<bar> = int b - 1"
    by (simp add: binade_def fl)
  have u: "ulp (int b - 1) = inverse (2 ^ d)"
  proof -
    have "int b - 1 - 52 = - int d" using b53 by (simp add: d_def)
    then show ?thesis by (simp add: ulp_def power_int_minus)
  qed
  have q: "\<bar>of_nat n :: rat\<bar> / ulp (int b - 1) = of_int (int (n * 2 ^ d))"
    by (simp add: u divide_inverse)
  have nz: "int (n * 2 ^ d) \<noteq> 0" using assms(1) by simp
  have "round64 (of_nat n) = pack False (int b - 1) (int (n * 2 ^ d))"
    unfolding round64_def bin round_in_def q round_half_even_int by simp
  also have "\<dots> = Fin (of_nat n)"
    using b53 nz by (simp add: pack_def u)
  finally show ?thesis .
qed

lemma js_add_nat:
  assumes "a + n < 2 ^ 53"
  shows "js_add (Fin (of_nat a)) (Fin (of_nat n)) = Fin (of_nat (a + n))"
proof (cases "a + n = 0")
  case True
  then show ?thesis
    by (simp add: js_add_def is_inf_def val_def signed_zero_def is_neg_def)
next
  case False
  then have "(of_nat a :: rat) + of_nat n \<noteq> 0"
    by (metis of_nat_add of_nat_eq_0_iff)
  moreover have "round64 (of_nat (a + n)) = Fin (of_nat (a + n))"
    using False assms by (intro round64_nat) simp_all
  ultimately show ?thesis
    by (simp add: js_add_def is_inf_def val_def)
qed

lemma double_sum_nat:
  "a + sum_list ns < 2 ^ 53 \<Longrightarrow>
   foldl (\<lambda>a b. js_add a b) (Fin (of_nat a)) (map (\<lambda>n. Fin (of_nat n)) ns) =
     Fin (of_nat (a + sum_list ns))"
proof (induction ns arbitrary: a)
  case Nil
  then show ?case by simp
next
  case (Cons n ns)
  have "a + n < 2 ^ 53" using Cons.prems by simp
  from js_add_nat [OF this] Cons.IH [of "a + n"] Cons.prems show ?case
    by (simp add: add.assoc)
qed

lemma val_sum_nat: "sum_list (map val (map (\<lambda>n. Fin (of_nat n)) ns)) = of_nat (sum_list ns)"
  by (induction ns) (simp_all add: val_def)

lemma exact_mean_nat:
  "exact_mean (map (\<lambda>n. Fin (of_nat n)) ns) = of_nat (sum_list ns) / of_nat (length ns)"
  unfolding exact_mean_def val_sum_nat by simp

lemma js_div_finite: "a \<noteq> 0 \<Longrightarrow> b \<noteq> 0 \<Longrightarrow> js_div (Fin a) (Fin b) = round64 (a / b)"
  by (simp add: js_div_def is_inf_def is_zero_def val_def)

lemma exact_mean_mixed: "exact_mean [Fin 110, Fin 120] = 115"
  by (simp add: exact_mean_def val_def)

lemma valid_originals_positive: "v \<in> set (valid_originals p) \<Longrightarrow> js_gt v (Fin 0)"
  by (simp add: valid_originals_def)

lemma avgForecast_unfold:
  "avgForecast p =
     (if valid_originals p = [] then last_price p
      else js_div (foldl (\<lambda>a b. js_add a b) (Fin 0) (valid_originals p))
             (Fin (of_nat (length (valid_originals p)))))"
proof -
  have v: "validValues p = valid_originals p"
    by (simp add: validValues_def valid_originals_def forecastValues_def valid_filter_aux)
  show ?thesis
    unfolding avgForecast_def avgForecast_logged_def v by simp
qed

lemma avgForecast_whole:
  assumes v: "valid_originals p = map (\<lambda>n. Fin (of_nat n)) ns" and ne: "ns \<noteq> []"
    and small: "sum_list ns < 2 ^ 53"
  shows "avgForecast p = round64 (exact_mean (valid_originals p))"
proof -
  have pos: "0 < n" if "n \<in> set ns" for n
  proof -
    from that have "Fin (of_nat n) \<in> set (valid_originals p)" by (simp add: v)
    then have "js_gt (Fin (of_nat n)) (Fin 0)" by (rule valid_originals_positive)
    then show ?thesis by (simp add: js_gt_def js_lt_def val_def)
  qed
  obtain n ns' where ns: "ns = n # ns'" using ne by (cases ns) auto
  have "0 < n" using pos ns by simp
  then have s: "0 < sum_list ns" by (simp add: ns)
  have sum: "foldl (\<lambda>a b. js_add a b) (Fin 0) (valid_originals p) = Fin (of_nat (sum_list ns))"
    using double_sum_nat [of 0 ns] small by (simp add: v)
  have "sum_list ns \<noteq> 0" using s by (rule gr_implies_not0)
  moreover have "length ns \<noteq> 0" using ne by simp
  ultimately have nz: "(of_nat (sum_list ns) :: rat) \<noteq> 0" "(of_nat (length ns) :: rat) \<noteq> 0"
    by (simp_all only: of_nat_eq_0_iff not_False_eq_True)
  have "js_div (Fin (of_nat (sum_list ns))) (Fin (of_nat (length ns))) =
          round64 (of_nat (sum_list ns) / of_nat (length ns))"
    using nz by (rule js_div_finite)
  moreover have "valid_originals p \<noteq> []" using ne by (simp add: v)
  moreover have "length (valid_originals p) = length ns" by (simp add: v)
  ultimately show ?thesis
    unfolding avgForecast_unfold sum
    by (simp only: if_False v exact_mean_nat length_map)
qed

lemma valid_originals_examples:
  "valid_originals prediction_mixed = map (\<lambda>n. Fin (of_nat n)) [110, 120]"
  "valid_originals prediction_none_valid = []"
  by (simp_all add: valid_originals_def prediction_mixed_def prediction_none_valid_def
      forecast_only_def to_number_def js_gt_def js_lt_def val_def)

lemma round64_115: "round64 115 = Fin 115"
  using round64_nat [of 115] by simp

lemma tenths_values:
  "valid_originals prediction_tenths =
     [Fin (3602879701896397 / 2 ^ 55), Fin (3602879701896397 / 2 ^ 54),
      Fin (5404319552844595 / 2 ^ 54)]"
  unfolding valid_originals_def prediction_tenths_def forecast_only_def by code_simp

lemma tenths_average:
  "js_div (foldl (\<lambda>a b. js_add a b) (Fin 0)
       [Fin (3602879701896397 / 2 ^ 55), Fin (3602879701896397 / 2 ^ 54),
        Fin (5404319552844595 / 2 ^ 54)]) (Fin (of_nat 3)) = Fin (7205759403792795 / 2 ^ 55)"
  by code_simp

lemma tenths_exact_mean:
  "exact_mean [Fin (3602879701896397 / 2 ^ 55), Fin (3602879701896397 / 2 ^ 54),
        Fin (5404319552844595 / 2 ^ 54)] = 21617278211378381 / (3 * 2 ^ 55)"
  by (simp add: exact_mean_def val_def)

lemma tenths_rounded_mean:
  "round64 (21617278211378381 / (3 * 2 ^ 55)) = Fin (3602879701896397 / 2 ^ 54)"
  by code_simp

lemma toFixed_NegZero: "toFixed ts 2 NegZero = str ''0.00''"
  by code_simp

lemma infinite_arrays:
  "lowerCI prediction_infinite = [PosInf]" "upperCI prediction_infinite = [PosInf]"
  by (simp_all add: lowerCI_def upperCI_def prediction_infinite_def lowerValue_def upperValue_def
      isNaN_def to_number_def)

section \<open>Facts about matching and replacing\<close>

lemmas regex_defs =
  re_line_start_def re_h1_def re_h2_def re_h3_def re_h4_def re_h5_def
  re_delimited_def re_ordered_item_def re_bullet_item_def re_link_def re_code_def
  re_blockquote_def re_blank_line_def re_newline_def re_p_li_def re_li_p_def lits_def

lemmas md_eval =
  formatMarkdown_def wrapped_def fix_list_items_def run_passes_def basic_passes_def
  header_passes_def inline_passes_def replace_def replace_all.simps regex_defs
  tpl_tag_def tpl_link_def str_def line_terminator_def white_space_def
  digits.simps sublist_code Let_def












































section \<open>Claims\<close>

text \<open>
  C1. For every prediction, whose points may have each numeric field NaN or absent, the
  three arrays \<open>forecastValues\<close>, \<open>lowerCI\<close> and \<open>upperCI\<close> built by
  \<^verbatim>\<open>renderPredictionCharts\<close> are exactly as long as the input forecast array and
  contain no NaN.
\<close>

theorem sanitizer_arrays_numeric:
  "length (forecastValues p) = length (forecasts p) \<and>
   length (lowerCI p) = length (forecasts p) \<and>
   length (upperCI p) = length (forecasts p) \<and>
   NaN \<notin> set (forecastValues p) \<and> NaN \<notin> set (lowerCI p) \<and> NaN \<notin> set (upperCI p)"
proof -
  have "NaN \<notin> set (forecastValues p)"
    by (auto simp: forecastValues_def forecastValue_not_NaN [THEN not_sym])
  moreover have "NaN \<notin> set (lowerCI p)"
    by (auto simp: lowerCI_def lowerValue_not_NaN [THEN not_sym])
  moreover have "NaN \<notin> set (upperCI p)"
    by (auto simp: upperCI_def upperValue_not_NaN [THEN not_sym])
  ultimately show ?thesis
    by (simp add: forecastValues_def lowerCI_def upperCI_def)
qed

text \<open>
  C2, as stated: for the point with forecast 110 and both bounds NaN the upper fallback is
  121.  The double product of 110 and the literal 1.1 is not 121.
\<close>

theorem upper_fallback_110_counterexample: "upperValue point_110 \<noteq> Fin 121"
  by (simp add: upperValue_def isNaN_def to_number_def point_110_def mul_110_lit_1_1)

text \<open>
  C2, amended.  For every point the sanitized forecast is the forecast when that is not NaN
  and 0 otherwise; the sanitized lower bound is \<open>lower_ci\<close> when that is not NaN,
  otherwise the forecast times 0.9 when the forecast is not NaN, otherwise 0; the upper
  bound likewise with 1.1.  For forecast 110 and both bounds NaN the lower fallback is 99
  and the upper fallback is the double next above 121, \<open>121 + 2\<^sup>-\<^sup>4\<^sup>6\<close>
  (printed 121.00000000000001).  When the forecast itself is NaN both fallbacks are 0.
\<close>

theorem sanitizer_fallbacks:
  "forecastValue point =
     (if \<not> isNaN (forecast point) then to_number (forecast point) else Fin 0) \<and>
   lowerValue point =
     (if \<not> isNaN (lower_ci point) then to_number (lower_ci point)
      else if \<not> isNaN (forecast point) then js_mul (to_number (forecast point)) lit_0_9
      else Fin 0) \<and>
   upperValue point =
     (if \<not> isNaN (upper_ci point) then to_number (upper_ci point)
      else if \<not> isNaN (forecast point) then js_mul (to_number (forecast point)) lit_1_1
      else Fin 0) \<and>
   lowerValue point_110 = Fin 99 \<and>
   upperValue point_110 = Fin (121 + 1 / 2 ^ 46) \<and>
   (isNaN (forecast point) \<and> isNaN (lower_ci point) \<and> isNaN (upper_ci point) \<longrightarrow>
      lowerValue point = Fin 0 \<and> upperValue point = Fin 0)"
proof -
  have "lowerValue point_110 = Fin 99"
    by (simp add: lowerValue_def isNaN_def to_number_def point_110_def mul_110_lit_0_9)
  moreover have "upperValue point_110 = Fin (121 + 1 / 2 ^ 46)"
    by (simp add: upperValue_def isNaN_def to_number_def point_110_def mul_110_lit_1_1)
  ultimately show ?thesis
    by (simp add: forecastValue_def lowerValue_def upperValue_def)
qed

theorem sanitizer_fallbacks_witness:
  "lowerValue \<lparr>day = 3, forecast = None, lower_ci = Some NaN, upper_ci = None\<rparr> = Fin 0 \<and>
   upperValue \<lparr>day = 3, forecast = None, lower_ci = Some NaN, upper_ci = None\<rparr> = Fin 0"
proof -
  let ?pt = "\<lparr>day = 3, forecast = None, lower_ci = Some NaN, upper_ci = None\<rparr>"
  have h: "isNaN (forecast ?pt) \<and> isNaN (lower_ci ?pt) \<and> isNaN (upper_ci ?pt)"
    by (simp add: isNaN_def to_number_def)
  from sanitizer_fallbacks [of ?pt] h show ?thesis by blast
qed

text \<open>
  C3, as stated: the average forecast equals the arithmetic mean of the original forecast
  values that are not NaN and strictly positive.  For the forecasts 0.1, 0.2 and 0.3 the
  code computes 0.20000000000000004, while the mean of these three doubles, exactly or
  rounded to the nearest double, is 0.2.
\<close>

theorem average_not_exact_mean_counterexample:
  "avgForecast prediction_tenths = Fin (7205759403792795 / 2 ^ 55) \<and>
   round64 (exact_mean (valid_originals prediction_tenths)) = Fin (3602879701896397 / 2 ^ 54) \<and>
   avgForecast prediction_tenths \<noteq> round64 (exact_mean (valid_originals prediction_tenths)) \<and>
   avgForecast prediction_tenths \<noteq> Fin (exact_mean (valid_originals prediction_tenths))"
proof -
  have a: "avgForecast prediction_tenths = Fin (7205759403792795 / 2 ^ 55)"
    by (simp add: avgForecast_unfold tenths_values tenths_average [simplified])
  have m: "exact_mean (valid_originals prediction_tenths) = 21617278211378381 / (3 * 2 ^ 55)"
    by (simp only: tenths_values tenths_exact_mean)
  have r: "round64 (exact_mean (valid_originals prediction_tenths)) =
             Fin (3602879701896397 / 2 ^ 54)"
    by (simp only: m tenths_rounded_mean)
  show ?thesis
    unfolding a r unfolding m by simp
qed

text \<open>
  C3, amended.  The average forecast is computed from the original forecast values that are
  not NaN and strictly positive (filtering the sanitized series with
  \<^verbatim>\<open>!isNaN(v) && v > 0\<close> keeps exactly those, since a NaN original is sanitized to 0
  and 0 fails the test): it is their sum in double arithmetic, accumulated from the left
  starting at 0, divided in double arithmetic by their number, and the last price when
  there is none.  When these values are whole numbers with a sum below \<open>2\<^sup>5\<^sup>3\<close> the
  result is their exact arithmetic mean rounded once to the nearest double: the forecasts
  110, absent, -5 and 120 give 115.  Forecasts without a valid value and last price 42
  give 42.
\<close>

theorem average_forecast:
  "validValues p = valid_originals p \<and>
   avgForecast p =
     (if valid_originals p = [] then last_price p
      else js_div (foldl (\<lambda>a b. js_add a b) (Fin 0) (valid_originals p))
             (Fin (of_nat (length (valid_originals p))))) \<and>
   (valid_originals p = map (\<lambda>n. Fin (of_nat n)) ns \<and> ns \<noteq> [] \<and> sum_list ns < 2 ^ 53 \<longrightarrow>
      avgForecast p = round64 (exact_mean (valid_originals p))) \<and>
   avgForecast prediction_mixed = Fin 115 \<and>
   avgForecast prediction_none_valid = Fin 42"
proof -
  have v: "validValues p = valid_originals p"
    by (simp add: validValues_def valid_originals_def forecastValues_def valid_filter_aux)
  have "avgForecast prediction_mixed = round64 (exact_mean (valid_originals prediction_mixed))"
    by (rule avgForecast_whole [of _ "[110, 120]"]) (simp_all add: valid_originals_examples)
  then have m: "avgForecast prediction_mixed = Fin 115"
    by (simp add: valid_originals_examples exact_mean_mixed round64_115)
  have "last_price prediction_none_valid = Fin 42" by (simp add: prediction_none_valid_def)
  then have n: "avgForecast prediction_none_valid = Fin 42"
    by (simp add: avgForecast_unfold valid_originals_examples)
  from v m n avgForecast_unfold [of p] avgForecast_whole [of p ns] show ?thesis by blast
qed

theorem average_forecast_witness:
  "avgForecast prediction_mixed = Fin 115 \<and>
   exact_mean (valid_originals prediction_mixed) = 115"
proof -
  have h: "valid_originals prediction_mixed = map (\<lambda>n. Fin (of_nat n)) [110, 120] \<and>
           [110, 120 :: nat] \<noteq> [] \<and> sum_list [110, 120 :: nat] < 2 ^ 53"
    by (simp add: valid_originals_examples)
  have e: "exact_mean (valid_originals prediction_mixed) = 115"
    by (simp add: valid_originals_examples exact_mean_mixed)
  from average_forecast [of prediction_mixed "[110, 120]"] h
  have "avgForecast prediction_mixed = round64 (exact_mean (valid_originals prediction_mixed))"
    by blast
  then have "avgForecast prediction_mixed = Fin 115"
    by (simp only: e round64_115)
  with e show ?thesis by blast
qed

text \<open>
  C5. The percent change is \<open>((average - last_price) / last_price) * 100\<close> when the last
  price is strictly positive and 0 otherwise, in particular when the last price is at
  most 0; every division performed while computing it has a strictly positive divisor,
  and no division by the last price is performed unless the last price is strictly
  positive.
\<close>

theorem percent_change_guarded:
  "(js_gt (last_price p) (Fin 0) \<longrightarrow>
      percentChange p =
        js_mul (js_div (js_sub (avgForecast p) (last_price p)) (last_price p)) (Fin 100)) \<and>
   (js_le (last_price p) (Fin 0) \<longrightarrow> percentChange p = Fin 0) \<and>
   (\<not> js_gt (last_price p) (Fin 0) \<longrightarrow>
      percentChange p = Fin 0 \<and> last_price p \<notin> set (snd (percentChange_logged p))) \<and>
   (\<forall>d\<in>set (snd (percentChange_logged p)). js_gt d (Fin 0))"
proof -
  have len: "js_gt (Fin (of_nat (length (validValues p)))) (Fin 0)" if "validValues p \<noteq> []"
    using that by (simp add: js_gt_def js_lt_def val_def)
  have all: "\<forall>d\<in>set (snd (percentChange_logged p)). js_gt d (Fin 0)"
    using len by (auto simp: percentChange_logged_def avgForecast_logged_def split: if_splits)
  have le: "js_le (last_price p) (Fin 0) \<Longrightarrow> \<not> js_gt (last_price p) (Fin 0)"
    by (simp add: js_le_def js_gt_def)
  have pos: "js_gt (last_price p) (Fin 0) \<Longrightarrow> percentChange p =
        js_mul (js_div (js_sub (avgForecast p) (last_price p)) (last_price p)) (Fin 100)"
    by (simp add: percentChange_def percentChange_logged_def avgForecast_def split: prod.splits)
  have neg: "\<not> js_gt (last_price p) (Fin 0) \<Longrightarrow> percentChange p = Fin 0"
    by (simp add: percentChange_def percentChange_logged_def split: prod.splits)
  have notin: "\<not> js_gt (last_price p) (Fin 0) \<Longrightarrow>
      last_price p \<notin> set (snd (percentChange_logged p))"
    using all by blast
  from all le pos neg notin show ?thesis by blast
qed

theorem percent_change_guarded_witness:
  "percentChange prediction_100 = Fin 10 \<and> percentChange prediction_0 = Fin 0 \<and>
   list_all (\<lambda>d. js_gt d (Fin 0)) (snd (percentChange_logged prediction_100)) \<and>
   Fin 0 \<notin> set (snd (percentChange_logged prediction_0))"
proof -
  have h1: "js_gt (last_price prediction_100) (Fin 0)"
    by (simp add: prediction_100_def js_gt_def js_lt_def val_def)
  have h0: "js_le (last_price prediction_0) (Fin 0)" "\<not> js_gt (last_price prediction_0) (Fin 0)"
    by (simp_all add: prediction_0_def js_le_def js_gt_def js_lt_def val_def)
  have l1: "last_price prediction_100 = Fin 100" by (simp add: prediction_100_def)
  have l0: "last_price prediction_0 = Fin 0" by (simp add: prediction_0_def)
  note t1 = percent_change_guarded [of prediction_100]
  note t0 = percent_change_guarded [of prediction_0]
  from t1 h1 have "percentChange prediction_100 =
      js_mul (js_div (js_sub (avgForecast prediction_100) (last_price prediction_100))
        (last_price prediction_100)) (Fin 100)"
    by blast
  then have a: "percentChange prediction_100 = Fin 10"
    by (simp add: l1 avg_100 percent_formula_110_100)
  from t0 h0 have b: "percentChange prediction_0 = Fin 0" by blast
  from t1 have c: "list_all (\<lambda>d. js_gt d (Fin 0)) (snd (percentChange_logged prediction_100))"
    unfolding list_all_iff by blast
  from t0 h0 l0 have d: "Fin 0 \<notin> set (snd (percentChange_logged prediction_0))"
    by metis
  from a b c d show ?thesis by blast
qed

text \<open>
  C4, as stated: the minimum and the maximum are each shown with two decimal places.  For
  a prediction whose bounds are infinite the range shown is \<^verbatim>\<open>"$Infinity - $Infinity"\<close>,
  which has no decimal point at all.
\<close>

theorem range_infinite_counterexample:
  "\<forall>ts. forecastRange ts prediction_infinite = str ''$Infinity - $Infinity'' \<and>
        46 \<notin> set (forecastRange ts prediction_infinite)"
  by (simp add: forecastRange_def getRangeDisplay_unfold infinite_arrays non_NaN_def
      min_max_single toFixed_def str_def)

text \<open>
  C4, amended.  \<^verbatim>\<open>getRangeDisplay\<close> returns \<^verbatim>\<open>"Range not available"\<close> exactly when the
  lower or the upper array has no entry other than NaN (as for \<open>[NaN, NaN]\<close> and
  \<open>[NaN, NaN]\<close>).  Otherwise it returns \<^verbatim>\<open>"$" + min.toFixed(2) + " - $" + max.toFixed(2)\<close>
  where \<open>min\<close> is a least element of the non-NaN entries of the lower array and \<open>max\<close> a
  greatest element of the non-NaN entries of the upper array.  \<^verbatim>\<open>toFixed(2)\<close> writes a
  finite value of magnitude below \<open>10\<^sup>2\<^sup>1\<close> with a sign, an integer part, a point and
  exactly two digits (a negative zero as \<^verbatim>\<open>0.00\<close>); it writes an infinite value as
  \<^verbatim>\<open>Infinity\<close> or \<^verbatim>\<open>-Infinity\<close>, and a finite value of magnitude \<open>10\<^sup>2\<^sup>1\<close> or more as
  Number::toString writes it, after the sign.
\<close>

theorem range_display:
  "(getRangeDisplay ts lo up = str ''Range not available'' \<longleftrightarrow>
      non_NaN lo = [] \<or> non_NaN up = []) \<and>
   (non_NaN lo \<noteq> [] \<and> non_NaN up \<noteq> [] \<longrightarrow>
      least_of (math_min (non_NaN lo)) (non_NaN lo) \<and>
      greatest_of (math_max (non_NaN up)) (non_NaN up) \<and>
      getRangeDisplay ts lo up =
        str ''$'' @ toFixed ts 2 (math_min (non_NaN lo)) @ str '' - $'' @
        toFixed ts 2 (math_max (non_NaN up))) \<and>
   (\<bar>q\<bar> < 10 ^ 21 \<longrightarrow>
      (\<exists>ip d1 d2. toFixed ts 2 (Fin q) = (if q < 0 then str ''-'' else []) @ ip @ [46, d1, d2] \<and>
         ip \<noteq> [] \<and> list_all is_digit (ip @ [d1, d2]))) \<and>
   (10 ^ 21 \<le> \<bar>q\<bar> \<longrightarrow>
      toFixed ts 2 (Fin q) = (if q < 0 then str ''-'' else []) @ ts (Fin \<bar>q\<bar>)) \<and>
   toFixed ts 2 NegZero = str ''0.00'' \<and>
   toFixed ts 2 PosInf = str ''Infinity'' \<and>
   toFixed ts 2 NegInf = str ''-Infinity'' \<and>
   getRangeDisplay ts [NaN, NaN] [NaN, NaN] = str ''Range not available''"
proof -
  have a: "getRangeDisplay ts lo up = str ''Range not available'' \<longleftrightarrow>
      non_NaN lo = [] \<or> non_NaN up = []"
    unfolding getRangeDisplay_unfold using range_not_sentinel by simp
  have b: "least_of (math_min (non_NaN lo)) (non_NaN lo)" if "non_NaN lo \<noteq> []"
    using math_min_least [OF that NaN_notin_non_NaN] by (simp add: least_of_def list_all_iff)
  have c: "greatest_of (math_max (non_NaN up)) (non_NaN up)" if "non_NaN up \<noteq> []"
    using math_max_greatest [OF that NaN_notin_non_NaN] by (simp add: greatest_of_def list_all_iff)
  have d: "getRangeDisplay ts [NaN, NaN] [NaN, NaN] = str ''Range not available''"
    by (simp add: getRangeDisplay_unfold non_NaN_def)
  have e: "10 ^ 21 \<le> \<bar>q\<bar> \<Longrightarrow>
      toFixed ts 2 (Fin q) = (if q < 0 then str ''-'' else []) @ ts (Fin \<bar>q\<bar>)"
    by (simp add: toFixed_def)
  have f: "toFixed ts 2 PosInf = str ''Infinity''" "toFixed ts 2 NegInf = str ''-Infinity''"
    by (simp_all add: toFixed_def)
  from a b c d e f toFixed_NegZero [of ts] toFixed_two_decimals [of q ts] show ?thesis
    by (simp add: getRangeDisplay_unfold)
qed

theorem range_display_witness:
  "getRangeDisplay (\<lambda>x. str ''1e+21'') [Fin 5, NaN] [NaN, Fin 7] = str ''$5.00 - $7.00'' \<and>
   (\<exists>ip d1 d2. toFixed (\<lambda>x. str ''1e+21'') 2 (Fin 5) = ip @ [46, d1, d2] \<and> ip \<noteq> [] \<and>
      list_all is_digit (ip @ [d1, d2])) \<and>
   toFixed (\<lambda>x. str ''1e+21'') 2 (Fin (10 ^ 21)) = str ''1e+21''"
proof -
  let ?ts = "\<lambda>x::jsnum. str ''1e+21''"
  have h1: "non_NaN [Fin 5, NaN] \<noteq> [] \<and> non_NaN [NaN, Fin 7] \<noteq> []"
    by (simp add: non_NaN_def)
  have h2: "\<bar>5::rat\<bar> < 10 ^ 21" by simp
  have h3: "10 ^ 21 \<le> \<bar>10 ^ 21 :: rat\<bar>" by simp
  note t = range_display [of ?ts "[Fin 5, NaN]" "[NaN, Fin 7]" 5]
  from t h1 have "getRangeDisplay ?ts [Fin 5, NaN] [NaN, Fin 7] =
        str ''$'' @ toFixed ?ts 2 (math_min (non_NaN [Fin 5, NaN])) @ str '' - $'' @
        toFixed ?ts 2 (math_max (non_NaN [NaN, Fin 7]))"
    by blast
  then have 1: "getRangeDisplay ?ts [Fin 5, NaN] [NaN, Fin 7] = str ''$5.00 - $7.00''"
    by (simp add: min_5 max_7 toFixed_5 toFixed_7 str_def)
  from t h2 have 2: "\<exists>ip d1 d2. toFixed ?ts 2 (Fin 5) = ip @ [46, d1, d2] \<and> ip \<noteq> [] \<and>
      list_all is_digit (ip @ [d1, d2])"
    by simp
  from range_display [of ?ts "[]" "[]" "10 ^ 21"] h3
  have "toFixed ?ts 2 (Fin (10 ^ 21)) =
          (if (10 ^ 21 :: rat) < 0 then str ''-'' else []) @ ?ts (Fin \<bar>10 ^ 21\<bar>)"
    by blast
  then have 3: "toFixed ?ts 2 (Fin (10 ^ 21)) = str ''1e+21''" by simp
  from 1 2 3 show ?thesis by blast
qed

text \<open>
  C9. Inside \<^verbatim>\<open>renderPredictionCharts\<close> the range is computed from the sanitized arrays,
  which hold no NaN: the sentinel \<^verbatim>\<open>"Range not available"\<close> is shown if and only if the
  forecast array of the prediction is empty, and every non-empty forecast array gets a
  numeric range, whatever its bounds were.
\<close>

theorem range_sentinel_iff_empty:
  "(forecastRange ts p = str ''Range not available'' \<longleftrightarrow> forecasts p = []) \<and>
   (forecasts p \<noteq> [] \<longrightarrow>
      forecastRange ts p =
        str ''$'' @ toFixed ts 2 (math_min (lowerCI p)) @ str '' - $'' @
        toFixed ts 2 (math_max (upperCI p)))"
proof -
  have lo: "non_NaN (lowerCI p) = lowerCI p" and up: "non_NaN (upperCI p) = upperCI p"
    using sanitizer_arrays_numeric [of p] by (simp_all add: non_NaN_id)
  have e: "lowerCI p = [] \<longleftrightarrow> forecasts p = []" "upperCI p = [] \<longleftrightarrow> forecasts p = []"
    by (simp_all add: lowerCI_def upperCI_def)
  show ?thesis
    unfolding forecastRange_def getRangeDisplay_unfold lo up e
    using range_not_sentinel by simp
qed

theorem range_sentinel_iff_empty_witness:
  "forecastRange (\<lambda>x. []) prediction_all_NaN = str ''$0.00 - $0.00'' \<and>
   forecastRange (\<lambda>x. []) prediction_all_NaN \<noteq> str ''Range not available''"
proof -
  have h: "forecasts prediction_all_NaN \<noteq> []" by (simp add: prediction_all_NaN_def)
  note t = range_sentinel_iff_empty [of "\<lambda>x. []" prediction_all_NaN]
  from t h have "forecastRange (\<lambda>x. []) prediction_all_NaN =
        str ''$'' @ toFixed (\<lambda>x. []) 2 (math_min (lowerCI prediction_all_NaN)) @ str '' - $'' @
        toFixed (\<lambda>x. []) 2 (math_max (upperCI prediction_all_NaN))"
    by blast
  then have 1: "forecastRange (\<lambda>x. []) prediction_all_NaN = str ''$0.00 - $0.00''"
    by (simp add: all_NaN_arrays min_max_single toFixed_0 str_def)
  from t h have 2: "forecastRange (\<lambda>x. []) prediction_all_NaN \<noteq> str ''Range not available''"
    by blast
  from 1 2 show ?thesis by blast
qed

text \<open>
  C10. The sanitizer enforces no order between the lower and the upper series.  For a
  prediction whose only point has lower bound 5 while its forecast and upper bound are NaN,
  the minimum of the lower array (5) exceeds the maximum of the upper array (the fallback
  0), and the range shown is \<^verbatim>\<open>"$5.00 - $0.00"\<close>.
\<close>

theorem range_min_exceeds_max:
  "js_gt (math_min (lowerCI prediction_lower_only)) (math_max (upperCI prediction_lower_only)) \<and>
   forecastRange ts prediction_lower_only = str ''$5.00 - $0.00''"
  by (simp add: forecastRange_def getRangeDisplay_unfold lower_only_arrays min_max_single
      non_NaN_def toFixed_5 toFixed_0 js_gt_def js_lt_def val_def str_def)

text \<open>
  C6. The claim: every paragraph of the output that contains a list item has \<^verbatim>\<open><ul>\<close>
  right after its \<^verbatim>\<open><p>\<close> and \<^verbatim>\<open></ul>\<close> right before its \<^verbatim>\<open></p>\<close>.  The two
  replacements of the post-pass act independently, the first only on a \<^verbatim>\<open><p>\<close> directly
  followed by a list item and the second only on a \<^verbatim>\<open></p>\<close> directly preceded by one.
  For a line of text followed by a list item the paragraph holds \<^verbatim>\<open><li>\<close> and gets a
  closing \<^verbatim>\<open></ul>\<close> with no \<^verbatim>\<open><ul>\<close> at all; for a list item followed by a line of text
  it gets an opening \<^verbatim>\<open><ul>\<close> that is never closed.
\<close>

theorem list_items_not_wrapped:
  "formatMarkdown (Some (str ''Intro'' @ [10] @ str ''- item'')) =
     str ''<p>Intro<br><li>item</li></ul></p>'' \<and>
   \<not> sublist (str ''<ul>'') (formatMarkdown (Some (str ''Intro'' @ [10] @ str ''- item''))) \<and>
   formatMarkdown (Some (str ''- item'' @ [10] @ str ''Outro'')) =
     str ''<p><ul><li>item</li><br>Outro</p>'' \<and>
   \<not> sublist (str ''</ul>'') (formatMarkdown (Some (str ''- item'' @ [10] @ str ''Outro'')))"
proof -
  have a: "formatMarkdown (Some (str ''Intro'' @ [10] @ str ''- item'')) =
     str ''<p>Intro<br><li>item</li></ul></p>''"
    by (simp add: md_eval)
  have b: "formatMarkdown (Some (str ''- item'' @ [10] @ str ''Outro'')) =
     str ''<p><ul><li>item</li><br>Outro</p>''"
    by (simp add: md_eval)
  have c: "\<not> sublist (str ''<ul>'') (str ''<p>Intro<br><li>item</li></ul></p>'')"
    "\<not> sublist (str ''</ul>'') (str ''<p><ul><li>item</li><br>Outro</p>'')"
    by (simp_all add: str_def sublist_code)
  show ?thesis unfolding a b using c by simp
qed



text \<open>
  C8. \<^verbatim>\<open>formatMarkdown("**bold** and *italic*")\<close> contains \<^verbatim>\<open><strong>bold</strong>\<close>
  and \<^verbatim>\<open><em>italic</em>\<close>.  In the chain of replacements the expression with the double
  delimiter comes directly before the one with the single delimiter, for \<^verbatim>\<open>*\<close> and for
  \<^verbatim>\<open>_\<close>; applied to the input first, the italic expression would take the two
  delimiters of the bold span for an empty italic span.
\<close>

theorem bold_before_italic:
  "formatMarkdown (Some (str ''**bold** and *italic*'')) =
     str ''<p><strong>bold</strong> and <em>italic</em></p>'' \<and>
   sublist (str ''<strong>bold</strong>'') (formatMarkdown (Some (str ''**bold** and *italic*''))) \<and>
   sublist (str ''<em>italic</em>'') (formatMarkdown (Some (str ''**bold** and *italic*''))) \<and>
   inline_passes ! 0 = (re_delimited ''**'', tpl_tag ''strong'') \<and>
   inline_passes ! 1 = (re_delimited ''*'', tpl_tag ''em'') \<and>
   inline_passes ! 2 = (re_delimited ''__'', tpl_tag ''strong'') \<and>
   inline_passes ! 3 = (re_delimited ''_'', tpl_tag ''em'') \<and>
   replace (re_delimited ''*'') (tpl_tag ''em'') (str ''**bold** and *italic*'') =
     str ''<em></em>bold<em></em> and <em>italic</em>''"
proof -
  have a: "formatMarkdown (Some (str ''**bold** and *italic*'')) =
     str ''<p><strong>bold</strong> and <em>italic</em></p>''"
    by (simp add: md_eval)
  have b: "sublist (str ''<strong>bold</strong>'') (str ''<p><strong>bold</strong> and <em>italic</em></p>'')"
    "sublist (str ''<em>italic</em>'') (str ''<p><strong>bold</strong> and <em>italic</em></p>'')"
    by (simp_all add: str_def sublist_code)
  have c: "replace (re_delimited ''*'') (tpl_tag ''em'') (str ''**bold** and *italic*'') =
     str ''<em></em>bold<em></em> and <em>italic</em>''"
    by (simp add: md_eval)
  show ?thesis
    unfolding a using b c by (simp add: inline_passes_def)
qed

end
